theory Spec2Isabelle
  imports Complex_Main
begin

section \<open>Data model of store/models.py\<close>

text \<open>
  The pricing engine of the store application is embedded here.  Python \<open>Decimal\<close>
  and \<open>float\<close> values are both read as exact real numbers: the 28-digit Decimal
  context, binary floating-point rounding and the quantisation of a DecimalField to two
  places when a row is written are not part of the model.  A foreign key is held as a
  copy of the row it points to (the cached related object), except
  \<open>Order.install_service_area\<close>, which the code compares and filters by id.  Only
  the fields that the modelled methods read or write are kept.
\<close>

datatype error = TypeError | ValueError

record service_area =
  sa_id :: nat
  permit_pool_fee_base :: real
  permit_accessory_fee_base :: real
  permit_pool_labor_hours :: real
  permit_accessory_labor_hours :: real

record zip_location =
  zl_zip_code :: string
  latitude :: "real option"
  longitude :: "real option"
  zl_service_area :: "service_area option"

record global_settings =
  permit_labor_hourly_rate :: real
  base_zip_code :: string

record shipping_group =
  base_flat_rate :: real
  per_mile_rate :: real
  free_with_install :: bool

record store_item =
  price :: real
  si_shipping_group :: "shipping_group option"
  is_installable :: bool
  install_base_rate :: real
  install_included_miles :: nat
  install_per_mile_rate :: real

record pool_variant =
  variant_price :: real
  pv_shipping_group :: "shipping_group option"
  install_days :: real
  install_daily_rate :: real
  pv_install_included_miles :: nat
  pv_install_per_mile_rate :: real

record order_item =
  oi_id :: nat
  oi_order :: nat
  pool_variant :: "pool_variant option"
  store_item :: "store_item option"
  quantity :: nat
  unit_price :: real
  line_subtotal :: real
  install_selected :: bool
  line_install_amount :: real
  line_shipping_amount :: real

record order =
  oid :: nat
  zip_code :: string
  zip_location :: "zip_location option"
  install_service_area :: "nat option"
  install_queue_position :: "nat option"
  subtotal :: real
  shipping_total :: real
  install_total :: real
  permit_total :: real
  tax_total :: real
  grand_total :: real

text \<open>
  The database: the ZipLocation table, the single GlobalSettings row with slug
  \<open>default\<close> (absent until first use), the Order table and the OrderItem table.
\<close>

record store =
  zip_locations :: "zip_location list"
  settings_row :: "global_settings option"
  orders :: "order list"
  order_items :: "order_item list"

section \<open>Python idioms\<close>

text \<open>\<open>x or Decimal("0.00")\<close>: a zero Decimal is falsy, so the default is taken.\<close>

definition or_zero :: "real \<Rightarrow> real" where
  "or_zero x = (if x = 0 then 0 else x)"

text \<open>\<open>n or 0\<close> on a PositiveIntegerField.\<close>

definition or_zero_nat :: "nat \<Rightarrow> nat" where
  "or_zero_nat n = (if n = 0 then 0 else n)"

section \<open>GlobalSettings.get_solo\<close>

text \<open>The field defaults of GlobalSettings, used by \<open>get_or_create\<close>.\<close>

definition default_settings :: global_settings where
  "default_settings = \<lparr>permit_labor_hourly_rate = 50, base_zip_code = ''34491''\<rparr>"

definition get_solo :: "store \<Rightarrow> store \<times> global_settings" where
  "get_solo st =
     (case settings_row st of
        Some g \<Rightarrow> (st, g)
      | None \<Rightarrow> (st\<lparr>settings_row := Some default_settings\<rparr>, default_settings))"

section \<open>ServiceArea permit charges\<close>

definition get_hourly_rate :: "store \<Rightarrow> store \<times> real" where
  "get_hourly_rate st =
     (let (st', settings_obj) = get_solo st
      in (st', or_zero (permit_labor_hourly_rate settings_obj)))"

definition get_pool_permit_charge :: "store \<Rightarrow> service_area \<Rightarrow> store \<times> real" where
  "get_pool_permit_charge st sa =
     (let (st', rate) = get_hourly_rate st
      in (st', or_zero (permit_pool_fee_base sa) + or_zero (permit_pool_labor_hours sa) * rate))"

definition get_accessory_permit_charge :: "store \<Rightarrow> service_area \<Rightarrow> store \<times> real" where
  "get_accessory_permit_charge st sa =
     (let (st', rate) = get_hourly_rate st
      in (st', or_zero (permit_accessory_fee_base sa)
               + or_zero (permit_accessory_labor_hours sa) * rate))"

section \<open>ShippingGroup.estimate_cost and the per-product wrappers\<close>

definition estimate_cost :: "shipping_group \<Rightarrow> real option \<Rightarrow> bool \<Rightarrow> real" where
  "estimate_cost sg distance_miles with_install =
     (if free_with_install sg \<and> with_install then 0
      else
        (let cost = or_zero (base_flat_rate sg)
         in (case distance_miles of
               Some d \<Rightarrow>
                 (if per_mile_rate sg \<noteq> 0 then cost + d * or_zero (per_mile_rate sg)
                  else cost)
             | None \<Rightarrow> cost)))"

definition si_estimate_shipping_cost :: "store_item \<Rightarrow> real option \<Rightarrow> bool \<Rightarrow> real" where
  "si_estimate_shipping_cost it distance_miles with_install =
     (case si_shipping_group it of
        Some sg \<Rightarrow> estimate_cost sg distance_miles with_install
      | None \<Rightarrow> 0)"

definition pv_estimate_shipping_cost :: "pool_variant \<Rightarrow> real option \<Rightarrow> bool \<Rightarrow> real" where
  "pv_estimate_shipping_cost pv distance_miles with_install =
     (case pv_shipping_group pv of
        Some sg \<Rightarrow> estimate_cost sg distance_miles with_install
      | None \<Rightarrow> 0)"

section \<open>Install estimates\<close>

text \<open>StoreItem.estimate_install_cost.\<close>

definition si_estimate_install_cost :: "store_item \<Rightarrow> real \<Rightarrow> real" where
  "si_estimate_install_cost it distance_miles =
     (if \<not> is_installable it then 0
      else
        (let base = or_zero (install_base_rate it);
             included = real (or_zero_nat (install_included_miles it));
             distance = distance_miles;
             extra_miles = distance - included;
             extra_miles = (if extra_miles < 0 then 0 else extra_miles);
             per_mile = or_zero (install_per_mile_rate it);
             mileage_cost = extra_miles * per_mile
         in base + mileage_cost))"

text \<open>PoolVariant.estimate_install_cost.\<close>

definition pv_estimate_install_cost :: "pool_variant \<Rightarrow> real \<Rightarrow> real" where
  "pv_estimate_install_cost pv distance_miles =
     (let labor_rate = or_zero (install_daily_rate pv);
          days = or_zero (install_days pv);
          labor = labor_rate * days;
          included = real (or_zero_nat (pv_install_included_miles pv));
          distance = distance_miles;
          extra_miles = distance - included;
          extra_miles = (if extra_miles < 0 then 0 else extra_miles);
          per_mile = or_zero (pv_install_per_mile_rate pv);
          mileage_cost = extra_miles * per_mile
      in labor + mileage_cost)"

section \<open>utils.haversine_miles\<close>

text \<open>
  \<open>math.radians\<close>, \<open>math.atan2\<close> and \<open>math.sqrt\<close> over the reals.  Python raises
  TypeError when an operand of \<open>-\<close> is \<open>None\<close> and ValueError when \<open>math.sqrt\<close>
  gets a negative argument; both are results of the model.
\<close>

definition radians :: "real \<Rightarrow> real" where
  "radians x = x * (pi / 180)"

definition atan2 :: "real \<Rightarrow> real \<Rightarrow> real" where
  "atan2 y x =
     (if 0 < x then arctan (y / x)
      else if x < 0 then (if 0 \<le> y then arctan (y / x) + pi else arctan (y / x) - pi)
      else if 0 < y then pi / 2
      else if y < 0 then - (pi / 2)
      else 0)"

definition haversine_miles ::
  "real option \<Rightarrow> real option \<Rightarrow> real option \<Rightarrow> real option \<Rightarrow> error + real" where
  "haversine_miles lat1 lon1 lat2 lon2 =
     (case (lat1, lat2) of
        (Some la1, Some la2) \<Rightarrow>
          (case (lon1, lon2) of
             (Some lo1, Some lo2) \<Rightarrow>
               (let R = 39588 / 10;
                    d_lat = radians (la2 - la1);
                    d_lon = radians (lo2 - lo1);
                    rlat1 = radians la1;
                    rlat2 = radians la2;
                    a = (sin (d_lat / 2))\<^sup>2 + cos rlat1 * cos rlat2 * (sin (d_lon / 2))\<^sup>2
                in if a < 0 \<or> 1 - a < 0 then Inl ValueError
                   else (let c = 2 * atan2 (sqrt a) (sqrt (1 - a)) in Inr (R * c)))
           | _ \<Rightarrow> Inl TypeError)
      | _ \<Rightarrow> Inl TypeError)"

section \<open>Order.calculate_distance\<close>

text \<open>\<open>ZipLocation.objects.filter(zip_code=code).first()\<close>.\<close>

definition zip_first :: "store \<Rightarrow> string \<Rightarrow> zip_location option" where
  "zip_first st code = find (\<lambda>z. zl_zip_code z = code) (zip_locations st)"

text \<open>
  The result carries the store because \<open>get_solo\<close> may have created the settings row.
  Only the latitudes are tested before \<open>haversine_miles\<close> is called.
\<close>

definition calculate_distance ::
  "store \<Rightarrow> order \<Rightarrow> string option \<Rightarrow> error + (store \<times> real option)" where
  "calculate_distance st self zip_override =
     (let (st1, base_settings) = get_solo st;
          base_zip = base_zip_code base_settings;
          base_loc = zip_first st1 base_zip;
          stored_loc =
            (case zip_location self of
               Some zl \<Rightarrow> Some zl
             | None \<Rightarrow> (if zip_code self \<noteq> [] then zip_first st1 (zip_code self) else None));
          customer_loc =
            (case zip_override of
               Some z \<Rightarrow> (if z \<noteq> [] then zip_first st1 z else stored_loc)
             | None \<Rightarrow> stored_loc)
      in case (base_loc, customer_loc) of
           (Some b, Some c) \<Rightarrow>
             (if latitude b = None \<or> latitude c = None then Inr (st1, None)
              else (case haversine_miles (latitude b) (longitude b) (latitude c) (longitude c) of
                      Inl e \<Rightarrow> Inl e
                    | Inr d \<Rightarrow> Inr (st1, Some d)))
         | _ \<Rightarrow> Inr (st1, None))"

section \<open>Saving rows\<close>

text \<open>
  \<open>self.save(update_fields=[...])\<close> on an order copies the named fields of the object
  to the row with its primary key; \<open>copy_fields self row\<close> is that copy.
\<close>

definition save_order :: "(order \<Rightarrow> order \<Rightarrow> order) \<Rightarrow> order \<Rightarrow> store \<Rightarrow> store" where
  "save_order copy_fields self st =
     st\<lparr>orders := map (\<lambda>r. if oid r = oid self then copy_fields self r else r) (orders st)\<rparr>"

definition copy_zip :: "order \<Rightarrow> order \<Rightarrow> order" where
  "copy_zip self r = r\<lparr>zip_location := zip_location self, zip_code := zip_code self\<rparr>"

definition copy_totals :: "order \<Rightarrow> order \<Rightarrow> order" where
  "copy_totals self r =
     r\<lparr>subtotal := subtotal self, shipping_total := shipping_total self,
       install_total := install_total self, permit_total := permit_total self,
       tax_total := tax_total self, grand_total := grand_total self\<rparr>"



text \<open>
  \<open>item.save(update_fields=["unit_price", "line_subtotal", "line_install_amount",
  "line_shipping_amount"])\<close>.
\<close>

definition copy_prices :: "order_item \<Rightarrow> order_item \<Rightarrow> order_item" where
  "copy_prices item r =
     r\<lparr>unit_price := unit_price item, line_subtotal := line_subtotal item,
       line_install_amount := line_install_amount item,
       line_shipping_amount := line_shipping_amount item\<rparr>"

definition save_item :: "order_item \<Rightarrow> store \<Rightarrow> store" where
  "save_item item st =
     st\<lparr>order_items :=
          map (\<lambda>r. if oi_id r = oi_id item then copy_prices item r else r) (order_items st)\<rparr>"

text \<open>The related manager \<open>self.items\<close>: the rows of OrderItem that point to the order.\<close>

definition order_lines :: "store \<Rightarrow> order \<Rightarrow> order_item list" where
  "order_lines st self = filter (\<lambda>r. oi_order r = oid self) (order_items st)"

section \<open>OrderItem.recalc_line_totals and Order.recalc_totals\<close>

definition recalc_line_totals :: "order_item \<Rightarrow> order_item" where
  "recalc_line_totals item =
     (let q = real (or_zero_nat (quantity item))
      in item\<lparr>line_subtotal := or_zero (unit_price item) * q\<rparr>)"

text \<open>The \<open>for item in items\<close> loop of \<open>recalc_totals\<close> with its three accumulators.\<close>

fun sum_lines :: "order_item list \<Rightarrow> real \<times> real \<times> real \<Rightarrow> real \<times> real \<times> real" where
  "sum_lines [] acc = acc"
| "sum_lines (item # rest) (subtotal_acc, shipping_acc, install_acc) =
     sum_lines rest
       (subtotal_acc + or_zero (line_subtotal item),
        shipping_acc + or_zero (line_shipping_amount item),
        install_acc + or_zero (line_install_amount item))"

definition recalc_totals :: "store \<Rightarrow> order \<Rightarrow> order" where
  "recalc_totals st self =
     (let items = order_lines st self;
          (sub, ship, inst) = sum_lines items (0, 0, 0);
          self1 = self\<lparr>subtotal := sub, shipping_total := ship, install_total := inst\<rparr>;
          self2 = self1\<lparr>tax_total := 0\<rparr>
      in self2\<lparr>grand_total :=
                 subtotal self2 + shipping_total self2 + install_total self2
                 + permit_total self2 + tax_total self2\<rparr>)"

section \<open>Order.apply_pricing\<close>

text \<open>Distance: the argument if given, else \<open>calculate_distance\<close>, else 0.\<close>

definition resolve_distance :: "store \<Rightarrow> order \<Rightarrow> real option \<Rightarrow> error + (store \<times> real)" where
  "resolve_distance st self distance_miles =
     (case distance_miles of
        Some d \<Rightarrow> Inr (st, d)
      | None \<Rightarrow>
          (case calculate_distance st self None of
             Inl e \<Rightarrow> Inl e
           | Inr (st1, Some d) \<Rightarrow> Inr (st1, d)
           | Inr (st1, None) \<Rightarrow> Inr (st1, 0)))"

text \<open>
  The county of the order: the linked ZIP record's service area, else the ZIP record
  found by the stored ZIP code, which is then linked to the order and saved.
\<close>

definition linked_service_area :: "order \<Rightarrow> service_area option" where
  "linked_service_area self =
     (case zip_location self of Some zl \<Rightarrow> zl_service_area zl | None \<Rightarrow> None)"

definition resolve_service_area :: "store \<Rightarrow> order \<Rightarrow> store \<times> order \<times> service_area option" where
  "resolve_service_area st self =
     (case linked_service_area self of
        Some sa \<Rightarrow> (st, self, Some sa)
      | None \<Rightarrow>
          (if zip_code self \<noteq> [] then
             (case zip_first st (zip_code self) of
                Some z \<Rightarrow>
                  (let self1 = self\<lparr>zip_location := Some z\<rparr>
                   in (save_order copy_zip self1 st, self1, zl_service_area z))
              | None \<Rightarrow> (st, self, None))
           else (st, self, None)))"

text \<open>The shipping group \<open>sg\<close> looked at for a line whose install is not selected.\<close>

definition line_shipping_group :: "order_item \<Rightarrow> shipping_group option" where
  "line_shipping_group item =
     (case (case pool_variant item of Some pv \<Rightarrow> pv_shipping_group pv | None \<Rightarrow> None) of
        Some g \<Rightarrow> Some g
      | None \<Rightarrow> (case store_item item of Some si \<Rightarrow> si_shipping_group si | None \<Rightarrow> None))"

text \<open>The body of the per-line loop, up to the save.\<close>

definition price_item :: "bool \<Rightarrow> real \<Rightarrow> order_item \<Rightarrow> order_item" where
  "price_item has_pool_install distance_miles item0 =
     (let base_price =
            (case pool_variant item0 of
               Some pv \<Rightarrow> or_zero (variant_price pv)
             | None \<Rightarrow> (case store_item item0 of Some si \<Rightarrow> or_zero (price si) | None \<Rightarrow> 0));
          item1 = recalc_line_totals (item0\<lparr>unit_price := base_price\<rparr>);
          install_amount =
            (if install_selected item1 then
               (let per_item_install =
                      (case pool_variant item1 of
                         Some pv \<Rightarrow> pv_estimate_install_cost pv distance_miles
                       | None \<Rightarrow>
                           (case store_item item1 of
                              Some si \<Rightarrow> si_estimate_install_cost si distance_miles
                            | None \<Rightarrow> 0));
                    qty = real (or_zero_nat (quantity item1))
                in per_item_install * qty)
             else 0);
          item2 = item1\<lparr>line_install_amount := install_amount\<rparr>;
          with_install_for_shipping =
            (if install_selected item2 then True
             else (case line_shipping_group item2 of
                     Some sg \<Rightarrow> has_pool_install \<and> free_with_install sg
                   | None \<Rightarrow> False));
          per_item_ship =
            (case pool_variant item2 of
               Some pv \<Rightarrow> pv_estimate_shipping_cost pv (Some distance_miles) with_install_for_shipping
             | None \<Rightarrow>
                 (case store_item item2 of
                    Some si \<Rightarrow>
                      si_estimate_shipping_cost si (Some distance_miles) with_install_for_shipping
                  | None \<Rightarrow> 0));
          qty = real (or_zero_nat (quantity item2));
          shipping_amount = per_item_ship * qty
      in item2\<lparr>line_shipping_amount := shipping_amount\<rparr>)"

text \<open>The per-line loop: each line is priced and saved in turn.\<close>

fun price_items :: "bool \<Rightarrow> real \<Rightarrow> order_item list \<Rightarrow> store \<Rightarrow> store" where
  "price_items has_pool_install distance_miles [] st = st"
| "price_items has_pool_install distance_miles (item # rest) st =
     price_items has_pool_install distance_miles rest
       (save_item (price_item has_pool_install distance_miles item) st)"

definition has_pool_install_of :: "order_item list \<Rightarrow> bool" where
  "has_pool_install_of items =
     list_ex (\<lambda>item. pool_variant item \<noteq> None \<and> install_selected item) items"

definition has_accessory_install_of :: "order_item list \<Rightarrow> bool" where
  "has_accessory_install_of items =
     list_ex (\<lambda>item. store_item item \<noteq> None \<and> install_selected item) items"

text \<open>The permit block: one charge for the whole order, pool before accessory.\<close>

definition permit_charge ::
  "store \<Rightarrow> service_area option \<Rightarrow> bool \<Rightarrow> bool \<Rightarrow> store \<times> real" where
  "permit_charge st service_area has_pool_install has_accessory_install =
     (case service_area of
        Some sa \<Rightarrow>
          (if has_pool_install then get_pool_permit_charge st sa
           else if has_accessory_install then get_accessory_permit_charge st sa
           else (st, 0))
      | None \<Rightarrow> (st, 0))"

text \<open>The body of \<open>apply_pricing\<close> once the distance is known.\<close>

definition price_order :: "store \<Rightarrow> order \<Rightarrow> real \<Rightarrow> store \<times> order" where
  "price_order st1 self distance_miles =
     (let items = order_lines st1 self;
          has_pool_install = has_pool_install_of items;
          has_accessory_install = has_accessory_install_of items;
          (st2, self1, service_area) = resolve_service_area st1 self;
          st3 = price_items has_pool_install distance_miles items st2;
          (st4, permit) =
            permit_charge st3 service_area has_pool_install has_accessory_install;
          self2 = self1\<lparr>permit_total := permit\<rparr>;
          self3 = recalc_totals st4 self2;
          st5 = save_order copy_totals self3 st4
      in (st5, self3))"

definition apply_pricing :: "store \<Rightarrow> order \<Rightarrow> real option \<Rightarrow> error + (store \<times> order)" where
  "apply_pricing st self distance_arg =
     (case resolve_distance st self distance_arg of
        Inl e \<Rightarrow> Inl e
      | Inr (st1, distance_miles) \<Rightarrow> Inr (price_order st1 self distance_miles))"

text \<open>
  Names for two values the claims speak of: the service area that \<open>apply_pricing\<close>
  resolves for an order, and the hourly rate that \<open>_get_hourly_rate\<close> returns.
\<close>

definition order_service_area :: "store \<Rightarrow> order \<Rightarrow> service_area option" where
  "order_service_area st self = snd (snd (resolve_service_area st self))"

definition hourly_rate :: "store \<Rightarrow> real" where
  "hourly_rate st = snd (get_hourly_rate st)"

section \<open>Order.assign_install_queue_position\<close>



section \<open>Example data\<close>

text \<open>The equipment of the install scenario: base 150.00, 50 miles included, 1.50 a mile.\<close>

definition scenario_item :: store_item where
  "scenario_item =
     \<lparr>price = 0, si_shipping_group = None, is_installable = True,
      install_base_rate = 150, install_included_miles = 50, install_per_mile_rate = 3 / 2\<rparr>"

text \<open>
  An order in a county with permit fees: a pool with install, a heater without install
  whose shipping group is free with install, and a pump with install.  Priced at 80 miles.
\<close>

definition pool_freight :: shipping_group where
  "pool_freight = \<lparr>base_flat_rate = 300, per_mile_rate = 2, free_with_install = True\<rparr>"

definition parcel :: shipping_group where
  "parcel = \<lparr>base_flat_rate = 20, per_mile_rate = 1 / 2, free_with_install = True\<rparr>"

definition ex_pool :: pool_variant where
  "ex_pool =
     \<lparr>variant_price = 5000, pv_shipping_group = Some pool_freight, install_days = 2,
      install_daily_rate = 400, pv_install_included_miles = 50, pv_install_per_mile_rate = 3\<rparr>"

definition ex_heater :: store_item where
  "ex_heater =
     \<lparr>price = 100, si_shipping_group = Some parcel, is_installable = False,
      install_base_rate = 150, install_included_miles = 50, install_per_mile_rate = 3 / 2\<rparr>"

definition ex_area :: service_area where
  "ex_area =
     \<lparr>sa_id = 7, permit_pool_fee_base = 50, permit_accessory_fee_base = 25,
      permit_pool_labor_hours = 2, permit_accessory_labor_hours = 1\<rparr>"

definition ex_zip :: zip_location where
  "ex_zip = \<lparr>zl_zip_code = ''32601'', latitude = None, longitude = None,
             zl_service_area = Some ex_area\<rparr>"

definition blank_line :: order_item where
  "blank_line =
     \<lparr>oi_id = 0, oi_order = 1, pool_variant = None, store_item = None, quantity = 1,
      unit_price = 0, line_subtotal = 0, install_selected = False,
      line_install_amount = 0, line_shipping_amount = 0\<rparr>"

definition pool_line :: order_item where
  "pool_line = blank_line\<lparr>oi_id := 1, pool_variant := Some ex_pool, install_selected := True\<rparr>"

definition heater_line :: order_item where
  "heater_line = blank_line\<lparr>oi_id := 2, store_item := Some ex_heater, quantity := 2\<rparr>"

definition pump_line :: order_item where
  "pump_line = blank_line\<lparr>oi_id := 3, store_item := Some scenario_item, install_selected := True\<rparr>"

definition ex_order :: order where
  "ex_order =
     \<lparr>oid = 1, zip_code = ''32601'', zip_location = Some ex_zip,
      install_service_area = None, install_queue_position = None,
      subtotal = 0, shipping_total = 0, install_total = 0, permit_total = 0,
      tax_total = 0, grand_total = 0\<rparr>"

definition ex_settings :: global_settings where
  "ex_settings = \<lparr>permit_labor_hourly_rate = 25, base_zip_code = ''34491''\<rparr>"

definition ex_store :: store where
  "ex_store =
     \<lparr>zip_locations = [ex_zip], settings_row = Some ex_settings,
      orders = [ex_order], order_items = [pool_line, heater_line, pump_line]\<rparr>"


definition pool_line_priced :: order_item where
  "pool_line_priced =
     pool_line\<lparr>unit_price := 5000, line_subtotal := 5000, line_install_amount := 890,
               line_shipping_amount := 0\<rparr>"

definition heater_line_priced :: order_item where
  "heater_line_priced =
     heater_line\<lparr>unit_price := 100, line_subtotal := 200, line_install_amount := 0,
                 line_shipping_amount := 0\<rparr>"

definition pump_line_priced :: order_item where
  "pump_line_priced =
     pump_line\<lparr>unit_price := 0, line_subtotal := 0, line_install_amount := 195,
               line_shipping_amount := 0\<rparr>"

definition ex_order_priced :: order where
  "ex_order_priced =
     ex_order\<lparr>subtotal := 5200, shipping_total := 0, install_total := 1085,
              permit_total := 100, tax_total := 0, grand_total := 6385\<rparr>"

definition ex_store_priced :: store where
  "ex_store_priced =
     ex_store\<lparr>orders := [ex_order_priced],
              order_items := [pool_line_priced, heater_line_priced, pump_line_priced]\<rparr>"








text \<open>An order whose only install is on a heater that is not installable.\<close>

definition heater_install_line :: order_item where
  "heater_install_line = heater_line\<lparr>install_selected := True\<rparr>"

definition c10_store :: store where
  "c10_store = ex_store\<lparr>order_items := [heater_install_line]\<rparr>"







text \<open>A customer ZIP record with a latitude and no longitude.\<close>

definition c8_base :: zip_location where
  "c8_base = \<lparr>zl_zip_code = ''34491'', latitude = Some 29, longitude = Some (- 82),
              zl_service_area = None\<rparr>"

definition c8_customer :: zip_location where
  "c8_customer = \<lparr>zl_zip_code = ''32601'', latitude = Some (593 / 20), longitude = None,
                  zl_service_area = Some ex_area\<rparr>"

definition c8_store :: store where
  "c8_store = ex_store\<lparr>zip_locations := [c8_base, c8_customer]\<rparr>"

definition c8_order :: order where
  "c8_order = ex_order\<lparr>zip_location := Some c8_customer\<rparr>"

text \<open>
  An order linked to a ZIP record without coordinates or service area, whose ZIP code
  names another record, half the globe away from the base; and the states after the
  first and the second pricing run without a distance argument.
\<close>

definition c4_base :: zip_location where
  "c4_base = \<lparr>zl_zip_code = ''34491'', latitude = Some 0, longitude = Some 0,
              zl_service_area = None\<rparr>"

definition c4_far :: zip_location where
  "c4_far = \<lparr>zl_zip_code = ''32601'', latitude = Some 0, longitude = Some 180,
             zl_service_area = None\<rparr>"

definition c4_linked :: zip_location where
  "c4_linked = \<lparr>zl_zip_code = ''99999'', latitude = None, longitude = None,
                zl_service_area = None\<rparr>"

definition c4_group :: shipping_group where
  "c4_group = \<lparr>base_flat_rate = 20, per_mile_rate = 1, free_with_install = False\<rparr>"

definition c4_item :: store_item where
  "c4_item = scenario_item\<lparr>price := 100, si_shipping_group := Some c4_group\<rparr>"

definition c4_line :: order_item where
  "c4_line = blank_line\<lparr>oi_id := 5, store_item := Some c4_item\<rparr>"

definition c4_order :: order where
  "c4_order = ex_order\<lparr>zip_location := Some c4_linked\<rparr>"

definition c4_store :: store where
  "c4_store =
     \<lparr>zip_locations = [c4_base, c4_far, c4_linked], settings_row = Some ex_settings,
      orders = [c4_order], order_items = [c4_line]\<rparr>"

definition c4_order1 :: order where
  "c4_order1 =
     c4_order\<lparr>zip_location := Some c4_far, subtotal := 100, shipping_total := 20,
               grand_total := 120\<rparr>"

definition c4_store1 :: store where
  "c4_store1 =
     c4_store\<lparr>orders := [c4_order1],
               order_items := [c4_line\<lparr>unit_price := 100, line_subtotal := 100,
                                      line_shipping_amount := 20\<rparr>]\<rparr>"

definition c4_distance :: real where
  "c4_distance = 39588 / 10 * pi"

definition c4_order2 :: order where
  "c4_order2 =
     c4_order1\<lparr>shipping_total := 20 + c4_distance, grand_total := 120 + c4_distance\<rparr>"

definition c4_store2 :: store where
  "c4_store2 =
     c4_store\<lparr>orders := [c4_order2],
               order_items := [c4_line\<lparr>unit_price := 100, line_subtotal := 100,
                                      line_shipping_amount := 20 + c4_distance\<rparr>]\<rparr>"

section \<open>Shared facts\<close>

lemma or_zero_id [simp]: "or_zero x = x"
  by (simp add: or_zero_def)

lemma or_zero_nat_id [simp]: "or_zero_nat n = n"
  by (simp add: or_zero_nat_def)

subsection \<open>The per-line loop\<close>

lemma price_item_keeps [simp]:
  "oi_id (price_item hp d r) = oi_id r"
  "oi_order (price_item hp d r) = oi_order r"
  "pool_variant (price_item hp d r) = pool_variant r"
  "store_item (price_item hp d r) = store_item r"
  "quantity (price_item hp d r) = quantity r"
  "install_selected (price_item hp d r) = install_selected r"
  by (simp_all add: price_item_def recalc_line_totals_def Let_def)

lemma copy_prices_self [simp]: "copy_prices (price_item hp d r) r = price_item hp d r"
  by (simp add: copy_prices_def price_item_def recalc_line_totals_def Let_def)

lemma copy_prices_id [simp]: "oi_id (copy_prices item r) = oi_id r"
  by (simp add: copy_prices_def)

lemma price_items_other [simp]:
  "zip_locations (price_items hp d its st) = zip_locations st"
  "settings_row (price_items hp d its st) = settings_row st"
  "orders (price_items hp d its st) = orders st"
  by (induction its arbitrary: st) (simp_all add: save_item_def)

lemma price_items_rows_find:
  "distinct (map oi_id its) \<Longrightarrow>
   order_items (price_items hp d its st)
     = map (\<lambda>r. case find (\<lambda>it. oi_id it = oi_id r) its of
                   Some it \<Rightarrow> copy_prices (price_item hp d it) r
                 | None \<Rightarrow> r) (order_items st)"
proof (induction its arbitrary: st)
  case Nil
  then show ?case by simp
next
  case (Cons a rest)
  have none: "find (\<lambda>it. oi_id it = oi_id a) rest = None"
  proof -
    have "oi_id a \<notin> oi_id ` set rest" using Cons.prems by simp
    then have "\<forall>x\<in>set rest. oi_id x \<noteq> oi_id a" by (metis imageI)
    then show ?thesis by (simp add: find_None_iff)
  qed
  show ?case
    using Cons.prems none
    by (auto simp: Cons.IH save_item_def)
qed

lemma find_absent:
  "oi_id r \<notin> oi_id ` set rows \<Longrightarrow> find (\<lambda>it. oi_id it = oi_id r) (filter P rows) = None"
  by (auto simp: find_None_iff) (metis imageI)

lemma find_in_filter:
  "distinct (map oi_id rows) \<Longrightarrow> r \<in> set rows \<Longrightarrow>
   find (\<lambda>it. oi_id it = oi_id r) (filter P rows) = (if P r then Some r else None)"
proof (induction rows)
  case Nil
  then show ?case by simp
next
  case (Cons a rows)
  show ?case
  proof (cases "r = a")
    case True
    then show ?thesis using Cons.prems by (simp add: find_absent)
  next
    case False
    then have "oi_id a \<noteq> oi_id r" using Cons.prems by force
    then show ?thesis using Cons False by simp
  qed
qed

lemma price_items_rows:
  assumes "distinct (map oi_id (order_items st))"
  shows "order_items (price_items hp d (filter P (order_items st)) st)
         = map (\<lambda>r. if P r then price_item hp d r else r) (order_items st)"
proof -
  have "distinct (map oi_id (filter P (order_items st)))"
    using assms by (simp add: distinct_map_filter)
  then show ?thesis
    using assms by (simp add: price_items_rows_find find_in_filter cong: map_cong)
qed

subsection \<open>Settings, distance and totals\<close>

lemma get_solo_fields [simp]:
  "zip_locations (fst (get_solo st)) = zip_locations st"
  "orders (fst (get_solo st)) = orders st"
  "order_items (fst (get_solo st)) = order_items st"
  by (simp_all add: get_solo_def split: option.splits)

lemma get_solo_settings: "settings_row (fst (get_solo st)) = Some (snd (get_solo st))"
  by (simp add: get_solo_def split: option.splits)

lemma get_solo_Some: "settings_row st = Some g \<Longrightarrow> get_solo st = (st, g)"
  by (simp add: get_solo_def)

lemma get_solo_twice: "get_solo (fst (get_solo st)) = (fst (get_solo st), snd (get_solo st))"
  by (simp add: get_solo_def split: option.splits)

lemma hourly_rate_eq:
  "hourly_rate st = (case settings_row st of None \<Rightarrow> 50 | Some g \<Rightarrow> permit_labor_hourly_rate g)"
  by (simp add: hourly_rate_def get_hourly_rate_def get_solo_def default_settings_def
           split: option.splits)

lemma get_hourly_rate_eq: "get_hourly_rate st = (fst (get_solo st), hourly_rate st)"
  by (simp add: hourly_rate_def get_hourly_rate_def split: prod.splits)

lemma hourly_rate_get_solo [simp]: "hourly_rate (fst (get_solo st)) = hourly_rate st"
  by (simp add: hourly_rate_eq get_solo_def default_settings_def split: option.splits)

lemma zip_first_cong: "zip_locations st = zip_locations st' \<Longrightarrow> zip_first st = zip_first st'"
  by (simp add: zip_first_def fun_eq_iff)

lemma calculate_distance_store:
  "calculate_distance st self zo = Inr (st1, x) \<Longrightarrow> st1 = fst (get_solo st)"
  by (auto simp: calculate_distance_def Let_def split: prod.splits option.splits if_splits sum.splits)

lemma resolve_distance_store:
  "resolve_distance st self da = Inr (st1, d) \<Longrightarrow>
   (da = Some d \<and> st1 = st) \<or> (da = None \<and> st1 = fst (get_solo st))"
  by (auto simp: resolve_distance_def split: option.splits sum.splits prod.splits
           dest: calculate_distance_store)

lemma resolve_distance_fields:
  assumes "resolve_distance st self da = Inr (st1, d)"
  shows "zip_locations st1 = zip_locations st" "orders st1 = orders st"
        "order_items st1 = order_items st" "hourly_rate st1 = hourly_rate st"
  using resolve_distance_store [OF assms] by auto

lemma save_order_fields [simp]:
  "zip_locations (save_order f self st) = zip_locations st"
  "settings_row (save_order f self st) = settings_row st"
  "order_items (save_order f self st) = order_items st"
  by (simp_all add: save_order_def)

lemma order_lines_cong:
  "order_items st = order_items st' \<Longrightarrow> oid self = oid self' \<Longrightarrow>
   order_lines st self = order_lines st' self'"
  by (simp add: order_lines_def)

lemma sum_lines_eq:
  "sum_lines items (a, b, c)
   = (a + sum_list (map line_subtotal items),
      b + sum_list (map line_shipping_amount items),
      c + sum_list (map line_install_amount items))"
  by (induction items arbitrary: a b c) simp_all

lemma recalc_totals_fields:
  "subtotal (recalc_totals st self) = sum_list (map line_subtotal (order_lines st self))"
  "shipping_total (recalc_totals st self) = sum_list (map line_shipping_amount (order_lines st self))"
  "install_total (recalc_totals st self) = sum_list (map line_install_amount (order_lines st self))"
  "tax_total (recalc_totals st self) = 0"
  "permit_total (recalc_totals st self) = permit_total self"
  "grand_total (recalc_totals st self)
     = subtotal (recalc_totals st self) + shipping_total (recalc_totals st self)
       + install_total (recalc_totals st self) + permit_total (recalc_totals st self)
       + tax_total (recalc_totals st self)"
  "oid (recalc_totals st self) = oid self"
  "zip_code (recalc_totals st self) = zip_code self"
  "zip_location (recalc_totals st self) = zip_location self"
  "install_service_area (recalc_totals st self) = install_service_area self"
  "install_queue_position (recalc_totals st self) = install_queue_position self"
  by (simp_all add: recalc_totals_def Let_def sum_lines_eq)

lemma resolve_service_area_fields [simp]:
  "zip_locations (fst (resolve_service_area st self)) = zip_locations st"
  "settings_row (fst (resolve_service_area st self)) = settings_row st"
  "order_items (fst (resolve_service_area st self)) = order_items st"
  "oid (fst (snd (resolve_service_area st self))) = oid self"
  "zip_code (fst (snd (resolve_service_area st self))) = zip_code self"
  by (simp_all add: resolve_service_area_def Let_def split: option.splits)

lemma permit_charge_fields [simp]:
  "zip_locations (fst (permit_charge st sa hp ha)) = zip_locations st"
  "orders (fst (permit_charge st sa hp ha)) = orders st"
  "order_items (fst (permit_charge st sa hp ha)) = order_items st"
  by (simp_all add: permit_charge_def get_pool_permit_charge_def get_accessory_permit_charge_def
        get_hourly_rate_eq split: option.splits)

lemma permit_charge_value:
  "snd (permit_charge st sa hp ha)
   = (case sa of
        None \<Rightarrow> 0
      | Some a \<Rightarrow>
          if hp then permit_pool_fee_base a + permit_pool_labor_hours a * hourly_rate st
          else if ha then permit_accessory_fee_base a + permit_accessory_labor_hours a * hourly_rate st
          else 0)"
  by (simp add: permit_charge_def get_pool_permit_charge_def get_accessory_permit_charge_def
        get_hourly_rate_eq split: option.splits)

subsection \<open>Pricing an order\<close>

lemma price_items_order_items_cong:
  "order_items st = order_items st' \<Longrightarrow>
   order_items (price_items hp d its st) = order_items (price_items hp d its st')"
proof (induction its arbitrary: st st')
  case Nil
  then show ?case by simp
next
  case (Cons a its)
  have "order_items (save_item (price_item hp d a) st) = order_items (save_item (price_item hp d a) st')"
    using Cons.prems by (simp add: save_item_def)
  from Cons.IH [OF this] show ?case by simp
qed

lemma price_order_unfold:
  "price_order st self d =
     (let hp = has_pool_install_of (order_lines st self);
          ha = has_accessory_install_of (order_lines st self);
          r = resolve_service_area st self;
          st3 = price_items hp d (order_lines st self) (fst r);
          pc = permit_charge st3 (snd (snd r)) hp ha;
          self3 = recalc_totals (fst pc) ((fst (snd r))\<lparr>permit_total := snd pc\<rparr>)
      in (save_order copy_totals self3 (fst pc), self3))"
  by (simp add: price_order_def Let_def case_prod_beta)


lemma price_order_oid [simp]: "oid (snd (price_order st self d)) = oid self"
  by (simp add: price_order_unfold Let_def recalc_totals_fields)

lemma price_order_items:
  assumes "distinct (map oi_id (order_items st))"
  shows "order_items (fst (price_order st self d))
         = map (\<lambda>r. if oi_order r = oid self
                      then price_item (has_pool_install_of (order_lines st self)) d r else r)
             (order_items st)"
proof -
  let ?hp = "has_pool_install_of (order_lines st self)"
  have "order_items (fst (price_order st self d))
        = order_items (price_items ?hp d (order_lines st self) (fst (resolve_service_area st self)))"
    by (simp add: price_order_unfold Let_def)
  also have "\<dots> = order_items (price_items ?hp d (order_lines st self) st)"
    by (rule price_items_order_items_cong) simp
  also have "\<dots> = map (\<lambda>r. if oi_order r = oid self then price_item ?hp d r else r) (order_items st)"
    unfolding order_lines_def using assms by (rule price_items_rows)
  finally show ?thesis .
qed

lemma price_order_lines:
  "order_lines (fst (price_order st self d)) (snd (price_order st self d))
   = order_lines (fst (permit_charge
        (price_items (has_pool_install_of (order_lines st self)) d (order_lines st self)
           (fst (resolve_service_area st self)))
        (snd (snd (resolve_service_area st self)))
        (has_pool_install_of (order_lines st self))
        (has_accessory_install_of (order_lines st self))))
      ((fst (snd (resolve_service_area st self)))\<lparr>permit_total := 0\<rparr>)"
  by (simp add: price_order_unfold Let_def order_lines_def recalc_totals_fields)

lemma price_order_totals:
  assumes "price_order st self d = (st', self')"
  shows "subtotal self' = sum_list (map line_subtotal (order_lines st' self'))"
        "shipping_total self' = sum_list (map line_shipping_amount (order_lines st' self'))"
        "install_total self' = sum_list (map line_install_amount (order_lines st' self'))"
        "tax_total self' = 0"
        "grand_total self' = subtotal self' + shipping_total self' + install_total self'
                             + permit_total self' + tax_total self'"
proof -
  have st': "st' = fst (price_order st self d)" and self': "self' = snd (price_order st self d)"
    using assms by simp_all
  show "subtotal self' = sum_list (map line_subtotal (order_lines st' self'))"
    unfolding st' self'
    by (simp add: price_order_unfold Let_def recalc_totals_fields order_lines_def)
  show "shipping_total self' = sum_list (map line_shipping_amount (order_lines st' self'))"
    unfolding st' self'
    by (simp add: price_order_unfold Let_def recalc_totals_fields order_lines_def)
  show "install_total self' = sum_list (map line_install_amount (order_lines st' self'))"
    unfolding st' self'
    by (simp add: price_order_unfold Let_def recalc_totals_fields order_lines_def)
  show "tax_total self' = 0"
    unfolding self' by (simp add: price_order_unfold Let_def recalc_totals_fields)
  show "grand_total self' = subtotal self' + shipping_total self' + install_total self'
                             + permit_total self' + tax_total self'"
    unfolding self' by (simp add: price_order_unfold Let_def recalc_totals_fields(6))
qed

lemma price_items_hourly_rate [simp]: "hourly_rate (price_items hp d its st) = hourly_rate st"
  by (simp add: hourly_rate_eq)

lemma resolve_service_area_hourly_rate [simp]:
  "hourly_rate (fst (resolve_service_area st self)) = hourly_rate st"
  by (simp add: hourly_rate_eq)

lemma price_order_permit:
  "permit_total (snd (price_order st self d))
   = (case order_service_area st self of
        None \<Rightarrow> 0
      | Some a \<Rightarrow>
          if has_pool_install_of (order_lines st self)
          then permit_pool_fee_base a + permit_pool_labor_hours a * hourly_rate st
          else if has_accessory_install_of (order_lines st self)
          then permit_accessory_fee_base a + permit_accessory_labor_hours a * hourly_rate st
          else 0)"
  by (simp add: price_order_unfold Let_def recalc_totals_fields permit_charge_value
        order_service_area_def split: option.splits)

lemma resolve_distance_Some [simp]: "resolve_distance st self (Some d) = Inr (st, d)"
  by (simp add: resolve_distance_def)

lemma apply_pricing_Inr:
  "apply_pricing st self da = Inr (st', self') \<longleftrightarrow>
   (\<exists>st1 d. resolve_distance st self da = Inr (st1, d) \<and> price_order st1 self d = (st', self'))"
  by (auto simp: apply_pricing_def split: sum.splits)


lemma apply_pricing_Some: "apply_pricing st self (Some d) = Inr (price_order st self d)"
  by (simp add: apply_pricing_def)

lemma resolve_service_area_zip_cong:
  "zip_locations st1 = zip_locations st \<Longrightarrow>
   snd (snd (resolve_service_area st1 self)) = snd (snd (resolve_service_area st self))"
  by (simp add: resolve_service_area_def zip_first_def Let_def split: option.splits)

lemma order_service_area_cong:
  "zip_locations st1 = zip_locations st \<Longrightarrow> order_service_area st1 self = order_service_area st self"
  unfolding order_service_area_def by (rule resolve_service_area_zip_cong)

subsection \<open>The example order\<close>

lemma ex_pool_line_priced: "price_item True 80 pool_line = pool_line_priced"
  by (simp add: price_item_def recalc_line_totals_def line_shipping_group_def
        pv_estimate_install_cost_def pv_estimate_shipping_cost_def estimate_cost_def
        pool_line_def pool_line_priced_def blank_line_def ex_pool_def pool_freight_def Let_def)

lemma ex_heater_line_priced: "price_item True 80 heater_line = heater_line_priced"
  by (simp add: price_item_def recalc_line_totals_def line_shipping_group_def
        si_estimate_install_cost_def si_estimate_shipping_cost_def estimate_cost_def
        heater_line_def heater_line_priced_def blank_line_def ex_heater_def parcel_def Let_def)


lemma ex_pump_line_priced: "price_item True 80 pump_line = pump_line_priced"
  by (simp add: price_item_def recalc_line_totals_def line_shipping_group_def
        si_estimate_install_cost_def si_estimate_shipping_cost_def
        pump_line_def pump_line_priced_def blank_line_def scenario_item_def Let_def)

lemma ex_lines: "order_lines ex_store ex_order = [pool_line, heater_line, pump_line]"
  by (simp add: order_lines_def ex_store_def ex_order_def pool_line_def heater_line_def
        pump_line_def blank_line_def)

lemma ex_has_pool: "has_pool_install_of [pool_line, heater_line, pump_line] = True"
  by (simp add: has_pool_install_of_def pool_line_def blank_line_def)




lemma ex_lines_priced:
  "order_lines ex_store_priced ex_order_priced
   = [pool_line_priced, heater_line_priced, pump_line_priced]"
  by (simp add: order_lines_def ex_store_priced_def ex_order_priced_def ex_order_def
        pool_line_priced_def heater_line_priced_def pump_line_priced_def pool_line_def
        heater_line_def pump_line_def blank_line_def)

lemma ex_resolve: "resolve_service_area ex_store ex_order = (ex_store, ex_order, Some ex_area)"
  by (simp add: resolve_service_area_def linked_service_area_def ex_order_def ex_zip_def)

lemma ex_price_items:
  "price_items True 80 [pool_line, heater_line, pump_line] ex_store
   = ex_store\<lparr>order_items := [pool_line_priced, heater_line_priced, pump_line_priced]\<rparr>"
  by (simp add: ex_pool_line_priced ex_heater_line_priced ex_pump_line_priced save_item_def
        copy_prices_def ex_store_def pool_line_priced_def heater_line_priced_def
        pump_line_priced_def)
     (simp add: pool_line_def heater_line_def pump_line_def blank_line_def)

lemma ex_permit:
  "permit_charge (ex_store\<lparr>order_items := [pool_line_priced, heater_line_priced, pump_line_priced]\<rparr>)
     (Some ex_area) True ha
   = (ex_store\<lparr>order_items := [pool_line_priced, heater_line_priced, pump_line_priced]\<rparr>, 100)"
  by (simp add: permit_charge_def get_pool_permit_charge_def get_hourly_rate_def get_solo_def
        ex_store_def ex_settings_def ex_area_def)

lemma ex_recalc:
  "recalc_totals (ex_store\<lparr>order_items := [pool_line_priced, heater_line_priced, pump_line_priced]\<rparr>)
     (ex_order\<lparr>permit_total := 100\<rparr>) = ex_order_priced"
  by (simp add: recalc_totals_def order_lines_def ex_store_def ex_order_def ex_order_priced_def
        pool_line_priced_def heater_line_priced_def pump_line_priced_def pool_line_def
        heater_line_def pump_line_def blank_line_def)

lemma ex_priced: "price_order ex_store ex_order 80 = (ex_store_priced, ex_order_priced)"
proof -
  have "price_order ex_store ex_order 80
        = (save_order copy_totals ex_order_priced
             (ex_store\<lparr>order_items := [pool_line_priced, heater_line_priced, pump_line_priced]\<rparr>),
           ex_order_priced)"
    by (simp only: price_order_unfold Let_def ex_lines ex_has_pool ex_resolve fst_conv snd_conv
          ex_price_items ex_permit ex_recalc)
  also have "save_order copy_totals ex_order_priced
               (ex_store\<lparr>order_items := [pool_line_priced, heater_line_priced, pump_line_priced]\<rparr>)
             = ex_store_priced"
    by (simp add: save_order_def copy_totals_def ex_store_priced_def ex_store_def
          ex_order_priced_def ex_order_def)
  finally show ?thesis .
qed

lemma ex_apply_pricing:
  "apply_pricing ex_store ex_order (Some 80) = Inr (ex_store_priced, ex_order_priced)"
  by (simp add: apply_pricing_Some ex_priced)

subsection \<open>What the loop body gives a line\<close>

lemma price_item_shipping_group [simp]:
  "line_shipping_group (price_item hp d r) = line_shipping_group r"
  by (simp add: line_shipping_group_def split: option.splits)

lemma price_item_free_shipping:
  assumes "install_selected r \<or> hp" "line_shipping_group r = Some sg" "free_with_install sg"
  shows "line_shipping_amount (price_item hp d r) = 0"
  using assms
  by (auto simp: price_item_def recalc_line_totals_def line_shipping_group_def Let_def
        pv_estimate_shipping_cost_def si_estimate_shipping_cost_def estimate_cost_def
      split: option.splits)


lemma price_item_not_installable:
  assumes "pool_variant r = None" "store_item r = Some it" "\<not> is_installable it"
  shows "line_install_amount (price_item hp d r) = 0"
  using assms by (simp add: price_item_def recalc_line_totals_def Let_def si_estimate_install_cost_def)

lemma filter_map_priced:
  "filter (\<lambda>r. oi_order r = k) (map (\<lambda>r. if oi_order r = k then price_item hp d r else r) rows)
   = map (price_item hp d) (filter (\<lambda>r. oi_order r = k) rows)"
  by (induction rows) simp_all

lemma price_order_priced_lines:
  assumes "distinct (map oi_id (order_items st))"
  shows "order_lines (fst (price_order st self d)) (snd (price_order st self d))
         = map (price_item (has_pool_install_of (order_lines st self)) d) (order_lines st self)"
  by (simp add: order_lines_def price_order_items [OF assms] filter_map_priced)

lemma apply_pricing_priced_lines:
  assumes "distinct (map oi_id (order_items st))"
    and "apply_pricing st self da = Inr (st', self')"
  shows "\<exists>d. order_lines st' self'
             = map (price_item (has_pool_install_of (order_lines st self)) d) (order_lines st self)"
proof -
  from assms(2) obtain st1 d where rd: "resolve_distance st self da = Inr (st1, d)"
    and po: "price_order st1 self d = (st', self')"
    by (auto simp: apply_pricing_Inr)
  note f = resolve_distance_fields [OF rd]
  have ol: "order_lines st1 self = order_lines st self"
    by (simp add: order_lines_def f(3))
  have "distinct (map oi_id (order_items st1))" using assms(1) f(3) by simp
  from price_order_priced_lines [OF this, of self d]
  have "order_lines st' self'
        = map (price_item (has_pool_install_of (order_lines st self)) d) (order_lines st self)"
    by (simp add: po ol)
  then show ?thesis ..
qed

lemmas all_defs = price_order_def Let_def order_lines_def has_pool_install_of_def
  has_accessory_install_of_def resolve_service_area_def linked_service_area_def
  save_item_def copy_prices_def price_item_def recalc_line_totals_def line_shipping_group_def
  pv_estimate_install_cost_def pv_estimate_shipping_cost_def si_estimate_install_cost_def
  si_estimate_shipping_cost_def estimate_cost_def permit_charge_def get_pool_permit_charge_def
  get_accessory_permit_charge_def get_hourly_rate_def get_solo_def default_settings_def
  recalc_totals_def save_order_def copy_totals_def copy_zip_def zip_first_def

lemmas data_defs = ex_store_def ex_order_def ex_zip_def ex_area_def ex_settings_def
  pool_line_def heater_line_def pump_line_def blank_line_def ex_pool_def ex_heater_def
  scenario_item_def pool_freight_def parcel_def pool_line_priced_def heater_line_priced_def
  pump_line_priced_def


subsection \<open>The install queue\<close>



subsection \<open>A second pricing run\<close>

lemma price_item_idem: "price_item hp d (price_item hp d r) = price_item hp d r"
  by (cases "pool_variant r"; cases "store_item r"; cases "install_selected r")
     (simp_all add: price_item_def recalc_line_totals_def line_shipping_group_def Let_def
        cong: option.case_cong)

lemma has_install_priced [simp]:
  "has_pool_install_of (map (price_item hp d) L) = has_pool_install_of L"
  "has_accessory_install_of (map (price_item hp d) L) = has_accessory_install_of L"
  by (simp_all add: has_pool_install_of_def has_accessory_install_of_def list_ex_iff)

lemma price_items_store:
  "price_items hp d its st = st\<lparr>order_items := order_items (price_items hp d its st)\<rparr>"
proof (induction its arbitrary: st)
  case Nil
  then show ?case by simp
next
  case (Cons a its)
  have "price_items hp d (a # its) st = price_items hp d its (save_item (price_item hp d a) st)"
    by simp
  also have "\<dots> = (save_item (price_item hp d a) st)
      \<lparr>order_items := order_items (price_items hp d its (save_item (price_item hp d a) st))\<rparr>"
    by (rule Cons.IH)
  also have "\<dots> = st\<lparr>order_items := order_items (price_items hp d (a # its) st)\<rparr>"
    by (simp add: save_item_def)
  finally show ?case .
qed

lemma permit_charge_store:
  "fst (permit_charge st sa hp ha)
   = (if sa \<noteq> None \<and> (hp \<or> ha) then fst (get_solo st) else st)"
  by (simp add: permit_charge_def get_pool_permit_charge_def get_accessory_permit_charge_def
        get_hourly_rate_eq split: option.splits)

lemma get_solo_store:
  "fst (get_solo st) = st\<lparr>settings_row := Some (snd (get_solo st))\<rparr>"
  by (simp add: get_solo_def split: option.splits)

lemma price_order_zip [simp]:
  "zip_locations (fst (price_order st self d)) = zip_locations st"
  by (simp add: price_order_unfold Let_def permit_charge_store)

lemma price_order_settings:
  "settings_row (fst (price_order st self d))
   = (if order_service_area st self \<noteq> None
         \<and> (has_pool_install_of (order_lines st self)
            \<or> has_accessory_install_of (order_lines st self))
      then Some (snd (get_solo st)) else settings_row st)"
proof -
  have "snd (get_solo (price_items hp dd its (fst (resolve_service_area st self)))) = snd (get_solo st)"
    for hp dd its
    by (simp add: get_solo_def split: option.splits)
  then show ?thesis
    by (simp add: price_order_unfold Let_def permit_charge_store order_service_area_def
          get_solo_settings)
qed

lemma price_order_orders:
  "orders (fst (price_order st self d))
   = map (\<lambda>r. if oid r = oid self then copy_totals (snd (price_order st self d)) r else r)
       (orders (fst (resolve_service_area st self)))"
  by (simp add: price_order_unfold Let_def permit_charge_store save_order_def
        recalc_totals_fields)

lemma resolve_service_area_keeps [simp]:
  "install_service_area (fst (snd (resolve_service_area st self))) = install_service_area self"
  "install_queue_position (fst (snd (resolve_service_area st self))) = install_queue_position self"
  by (simp_all add: resolve_service_area_def Let_def split: option.splits)

lemma price_order_keeps:
  "zip_code (snd (price_order st self d)) = zip_code self"
  "zip_location (snd (price_order st self d))
     = zip_location (fst (snd (resolve_service_area st self)))"
  "install_service_area (snd (price_order st self d)) = install_service_area self"
  "install_queue_position (snd (price_order st self d)) = install_queue_position self"
  by (simp_all add: price_order_unfold Let_def recalc_totals_fields)

lemma zip_location_update_same: "zip_location x = v \<Longrightarrow> x\<lparr>zip_location := v\<rparr> = x"
  by (cases x) simp

lemma resolve_again:
  assumes R: "resolve_service_area st self = (st2, selfr, sa)"
    and z: "zip_locations st5 = zip_locations st"
    and zl: "zip_location self3 = zip_location selfr"
    and zc: "zip_code self3 = zip_code selfr"
    and id: "oid self3 = oid selfr"
    and rows: "orders st5
               = map (\<lambda>r. if oid r = oid selfr then copy_totals self3 r else r) (orders st2)"
  shows "resolve_service_area st5 self3 = (st5, self3, sa)"
proof (cases "linked_service_area self")
  case (Some a)
  with R have "selfr = self" "sa = Some a"
    by (simp_all add: resolve_service_area_def)
  with Some zl show ?thesis
    by (simp add: resolve_service_area_def linked_service_area_def)
next
  case None
  note lin = None
  have zf: "zip_first st5 = zip_first st" using z by (rule zip_first_cong)
  show ?thesis
  proof (cases "zip_code self \<noteq> [] \<and> zip_first st (zip_code self) \<noteq> None")
    case False
    with R lin have e: "selfr = self" "sa = None"
      by (auto simp: resolve_service_area_def split: option.splits if_splits)
    have "linked_service_area self3 = None"
      using lin zl e by (simp add: linked_service_area_def)
    with False zc e zf show ?thesis
      by (auto simp: resolve_service_area_def split: option.splits)
  next
    case True
    then obtain zr where zr: "zip_first st (zip_code self) = Some zr" and ne: "zip_code self \<noteq> []"
      by auto
    with R lin have e: "selfr = self\<lparr>zip_location := Some zr\<rparr>"
      "st2 = save_order copy_zip (self\<lparr>zip_location := Some zr\<rparr>) st" "sa = zl_service_area zr"
      by (auto simp: resolve_service_area_def Let_def)
    have zl3: "zip_location self3 = Some zr" using zl e by simp
    have zc3: "zip_code self3 = zip_code self" using zc e by simp
    have lin3: "linked_service_area self3 = zl_service_area zr"
      using zl3 by (simp add: linked_service_area_def)
    show ?thesis
    proof (cases "zl_service_area zr")
      case (Some a)
      with lin3 e show ?thesis by (simp add: resolve_service_area_def)
    next
      case None
      have same: "self3\<lparr>zip_location := Some zr\<rparr> = self3"
        using zl3 by (rule zip_location_update_same)
      have "orders (save_order copy_zip self3 st5) = orders st5"
        using id
        by (auto simp: save_order_def rows e copy_zip_def copy_totals_def zl3 zc3)
      then have "save_order copy_zip self3 st5 = st5"
        by (simp add: save_order_def)
      with None lin3 zf zr ne zc3 same e show ?thesis
        by (simp add: resolve_service_area_def Let_def)
    qed
  qed
qed

lemma price_order_ids:
  assumes "distinct (map oi_id (order_items st))"
  shows "map oi_id (order_items (fst (price_order st self d))) = map oi_id (order_items st)"
  by (simp add: price_order_items [OF assms] comp_def cong: map_cong)

lemma price_order_hourly_rate [simp]:
  "hourly_rate (fst (price_order st self d)) = hourly_rate st"
  by (simp add: hourly_rate_eq price_order_settings get_solo_def default_settings_def
        split: option.splits)

lemma price_order_idem:
  assumes d: "distinct (map oi_id (order_items st))"
    and po: "price_order st self dm = (st5, self3)"
  shows "price_order st5 self3 dm = (st5, self3)"
proof -
  define hp where "hp = has_pool_install_of (order_lines st self)"
  define ha where "ha = has_accessory_install_of (order_lines st self)"
  define L where "L = order_lines st self"
  have st5: "st5 = fst (price_order st self dm)" and self3: "self3 = snd (price_order st self dm)"
    using po by simp_all
  have oid3: "oid self3 = oid self" by (simp add: self3)
  have lines5: "order_lines st5 self3 = map (price_item hp dm) L"
    unfolding st5 self3 hp_def L_def by (rule price_order_priced_lines [OF d])
  have d5: "distinct (map oi_id (order_items st5))"
    unfolding st5 using d by (simp add: price_order_ids [OF d])
  have hp5: "has_pool_install_of (order_lines st5 self3) = hp"
    by (simp add: lines5 hp_def L_def)
  have ha5: "has_accessory_install_of (order_lines st5 self3) = ha"
    by (simp add: lines5 ha_def L_def)
  have lines55: "order_lines (fst (price_order st5 self3 dm)) (snd (price_order st5 self3 dm))
                 = order_lines st5 self3"
    by (simp add: price_order_priced_lines [OF d5] lines5 hp_def L_def price_item_idem)
  obtain st2 selfr sa where R: "resolve_service_area st self = (st2, selfr, sa)"
    by (cases "resolve_service_area st self") auto
  have rows5: "orders st5
               = map (\<lambda>r. if oid r = oid selfr then copy_totals self3 r else r) (orders st2)"
    using price_order_orders [of st self dm] resolve_service_area_fields(4) [of st self]
    by (simp add: st5 self3 R)
  have B: "resolve_service_area st5 self3 = (st5, self3, sa)"
  proof (rule resolve_again [OF R _ _ _ _ rows5])
    show "zip_locations st5 = zip_locations st" by (simp add: st5)
    show "zip_location self3 = zip_location selfr" by (simp add: self3 price_order_keeps R)
    show "zip_code self3 = zip_code selfr"
      using resolve_service_area_fields(5) [of st self] by (simp add: self3 price_order_keeps R)
    show "oid self3 = oid selfr"
      using resolve_service_area_fields(4) [of st self] by (simp add: oid3 R)
  qed
  have sa1: "order_service_area st self = sa" by (simp add: order_service_area_def R)
  have sa5: "order_service_area st5 self3 = sa" by (simp add: order_service_area_def B)
  have hr5: "hourly_rate st5 = hourly_rate st" by (simp add: st5)
  have tot: "subtotal self3 = sum_list (map line_subtotal (order_lines st5 self3))"
    "shipping_total self3 = sum_list (map line_shipping_amount (order_lines st5 self3))"
    "install_total self3 = sum_list (map line_install_amount (order_lines st5 self3))"
    "tax_total self3 = 0"
    "grand_total self3 = subtotal self3 + shipping_total self3 + install_total self3
                         + permit_total self3 + tax_total self3"
    using price_order_totals [OF po] by simp_all
  have po5: "price_order st5 self3 dm
             = (fst (price_order st5 self3 dm), snd (price_order st5 self3 dm))" by simp
  note tot5 = price_order_totals [OF po5, unfolded lines55]
  have permit5: "permit_total (snd (price_order st5 self3 dm)) = permit_total self3"
    unfolding price_order_permit sa5 hp5 ha5 hr5
    unfolding self3 price_order_permit sa1 hp_def ha_def ..
  have snd_eq: "snd (price_order st5 self3 dm) = self3"
  proof (rule order.equality)
    show "oid (snd (price_order st5 self3 dm)) = oid self3" by simp
    show "zip_code (snd (price_order st5 self3 dm)) = zip_code self3"
      by (simp add: price_order_keeps)
    show "zip_location (snd (price_order st5 self3 dm)) = zip_location self3"
      by (simp add: price_order_keeps B)
    show "install_service_area (snd (price_order st5 self3 dm)) = install_service_area self3"
      by (simp add: price_order_keeps)
    show "install_queue_position (snd (price_order st5 self3 dm)) = install_queue_position self3"
      by (simp add: price_order_keeps)
    show "subtotal (snd (price_order st5 self3 dm)) = subtotal self3"
      by (simp add: tot5(1) tot(1))
    show "shipping_total (snd (price_order st5 self3 dm)) = shipping_total self3"
      by (simp add: tot5(2) tot(2))
    show "install_total (snd (price_order st5 self3 dm)) = install_total self3"
      by (simp add: tot5(3) tot(3))
    show "permit_total (snd (price_order st5 self3 dm)) = permit_total self3"
      by (rule permit5)
    show "tax_total (snd (price_order st5 self3 dm)) = tax_total self3"
      by (simp add: tot5(4) tot(4))
    show "grand_total (snd (price_order st5 self3 dm)) = grand_total self3"
      by (simp add: tot5 tot permit5)
    show "order.more (snd (price_order st5 self3 dm)) = order.more self3" by simp
  qed
  have fst_eq: "fst (price_order st5 self3 dm) = st5"
  proof (rule store.equality)
    show "zip_locations (fst (price_order st5 self3 dm)) = zip_locations st5" by simp
    show "settings_row (fst (price_order st5 self3 dm)) = settings_row st5"
    proof (cases "sa \<noteq> None \<and> (hp \<or> ha)")
      case True
      then have "settings_row st5 = Some (snd (get_solo st))"
        unfolding st5 price_order_settings sa1 hp_def ha_def by simp
      then show ?thesis
        using True
        by (simp add: price_order_settings sa5 hp5 ha5 get_solo_Some)
    next
      case False
      then show ?thesis
        by (auto simp: price_order_settings sa5 hp5 ha5)
    qed
    show "orders (fst (price_order st5 self3 dm)) = orders st5"
      using resolve_service_area_fields(4) [of st self]
      by (auto simp: price_order_orders snd_eq B rows5 R oid3 copy_totals_def)
    show "order_items (fst (price_order st5 self3 dm)) = order_items st5"
      unfolding price_order_items [OF d5] hp5 oid3
      unfolding st5 price_order_items [OF d] hp_def
      by (auto simp: price_item_idem)
    show "store.more (fst (price_order st5 self3 dm)) = store.more st5" by simp
  qed
  show ?thesis
    using fst_eq snd_eq by (simp add: prod_eq_iff)
qed

lemma calculate_distance_again:
  assumes set: "settings_row st' = Some (snd (get_solo st))"
    and z: "zip_locations st' = zip_locations st"
    and stored:
      "(case zip_location self' of
          Some zl \<Rightarrow> Some zl
        | None \<Rightarrow> if zip_code self' \<noteq> [] then zip_first st (zip_code self') else None)
       = (case zip_location self of
            Some zl \<Rightarrow> Some zl
          | None \<Rightarrow> if zip_code self \<noteq> [] then zip_first st (zip_code self) else None)"
    and cd: "calculate_distance st self None = Inr (sta, x)"
  shows "calculate_distance st' self' None = Inr (st', x)"
proof -
  have g: "get_solo st' = (st', snd (get_solo st))" using set by (rule get_solo_Some)
  have zf: "zip_first st' = zip_first st" using z by (rule zip_first_cong)
  have zf1: "zip_first (fst (get_solo st)) = zip_first st"
    by (rule zip_first_cong) simp
  from cd show ?thesis
    unfolding calculate_distance_def Let_def case_prod_beta g fst_conv snd_conv zf zf1 stored
    by (auto split: option.splits if_splits sum.splits)
qed

lemma stored_location_after:
  assumes cond: "zip_location self = None \<or> zip_location self3 = zip_location self"
    and zl: "zip_location self3 = zip_location (fst (snd (resolve_service_area st1 self)))"
    and zc: "zip_code self3 = zip_code self"
    and z: "zip_locations st1 = zip_locations st"
  shows "(case zip_location self3 of
            Some zl \<Rightarrow> Some zl
          | None \<Rightarrow> if zip_code self3 \<noteq> [] then zip_first st (zip_code self3) else None)
         = (case zip_location self of
              Some zl \<Rightarrow> Some zl
            | None \<Rightarrow> if zip_code self \<noteq> [] then zip_first st (zip_code self) else None)"
proof (cases "zip_location self3 = zip_location self")
  case True
  then show ?thesis by (simp add: zc cong: option.case_cong)
next
  case False
  with cond have none: "zip_location self = None" by simp
  have zf: "zip_first st1 = zip_first st" using z by (rule zip_first_cong)
  from zl none show ?thesis
    by (auto simp: resolve_service_area_def linked_service_area_def Let_def zc zf
          split: option.splits if_splits)
qed

lemmas c4_defs = c4_base_def c4_far_def c4_linked_def c4_group_def c4_item_def c4_line_def
  c4_order_def c4_store_def c4_order1_def c4_store1_def c4_order2_def c4_store2_def

subsection \<open>The relinked order\<close>

lemma c4_first_distance: "resolve_distance c4_store c4_order None = Inr (c4_store, 0)"
  by (simp add: resolve_distance_def calculate_distance_def get_solo_def zip_first_def Let_def
        c4_defs ex_order_def ex_settings_def)

lemma c4_haversine: "haversine_miles (Some 0) (Some 0) (Some 0) (Some 180) = Inr c4_distance"
  by (simp add: haversine_miles_def radians_def atan2_def Let_def c4_distance_def)

lemma c4_second_distance:
  "resolve_distance c4_store1 c4_order1 None = Inr (c4_store1, c4_distance)"
  by (simp add: resolve_distance_def calculate_distance_def get_solo_def zip_first_def Let_def
        c4_haversine c4_defs ex_order_def ex_settings_def)

lemma c4_first_priced: "price_order c4_store c4_order 0 = (c4_store1, c4_order1)"
  by (simp add: all_defs data_defs c4_defs)

lemma c4_second_priced: "price_order c4_store1 c4_order1 c4_distance = (c4_store2, c4_order2)"
  by (simp add: all_defs data_defs c4_defs)

subsection \<open>What calculate_distance returns when the latitudes are tested\<close>

lemma calculate_distance_latitude_missing:
  assumes "zip_first (fst (get_solo st)) (base_zip_code (snd (get_solo st))) = Some b"
    and "zip_location self = Some c"
    and "latitude b = None \<or> latitude c = None"
  shows "calculate_distance st self None = Inr (fst (get_solo st), None)"
  using assms by (auto simp: calculate_distance_def Let_def case_prod_beta)

lemma calculate_distance_all_coordinates:
  assumes "zip_first (fst (get_solo st)) (base_zip_code (snd (get_solo st))) = Some b"
    and "zip_location self = Some c"
    and "latitude b = Some la1" "longitude b = Some lo1"
    and "latitude c = Some la2" "longitude c = Some lo2"
  shows "calculate_distance st self None
         = (case haversine_miles (Some la1) (Some lo1) (Some la2) (Some lo2) of
              Inl e \<Rightarrow> Inl e
            | Inr miles \<Rightarrow> Inr (fst (get_solo st), Some miles))"
  using assms by (simp add: calculate_distance_def Let_def case_prod_beta)

section \<open>Claims\<close>





text \<open>
  C3.  In an order where some line with a pool variant has install selected, every line
  whose shipping group has \<open>free_with_install\<close> gets \<open>line_shipping_amount\<close> 0
  from \<open>apply_pricing\<close>, also when the line's own install is not selected.  The
  shipping group of a line is the one the loop looks at: the pool variant's, else the
  store item's.
\<close>

theorem C3_cross_line_free_shipping:
  assumes "distinct (map oi_id (order_items st))"
    and "apply_pricing st self distance_arg = Inr (st', self')"
    and "has_pool_install_of (order_lines st self)"
    and "r' \<in> set (order_lines st' self')"
    and "line_shipping_group r' = Some sg"
    and "free_with_install sg"
  shows "line_shipping_amount r' = 0"
proof -
  from apply_pricing_priced_lines [OF assms(1,2)] obtain d where
    "order_lines st' self'
     = map (price_item (has_pool_install_of (order_lines st self)) d) (order_lines st self)" ..
  with assms(3,4) obtain r where r: "r' = price_item True d r"
    by auto
  with assms(5) have "line_shipping_group r = Some sg" by simp
  then show ?thesis
    unfolding r using assms(6) by (intro price_item_free_shipping) simp_all
qed

theorem C3_cross_line_free_shipping_witness:
  "distinct (map oi_id (order_items ex_store))
   \<and> apply_pricing ex_store ex_order (Some 80) = Inr (ex_store_priced, ex_order_priced)
   \<and> has_pool_install_of (order_lines ex_store ex_order)
   \<and> heater_line_priced \<in> set (order_lines ex_store_priced ex_order_priced)
   \<and> store_item heater_line_priced = Some ex_heater
   \<and> \<not> install_selected heater_line_priced
   \<and> line_shipping_group heater_line_priced = Some parcel
   \<and> free_with_install parcel
   \<and> line_shipping_amount heater_line_priced = 0"
proof -
  have d: "distinct (map oi_id (order_items ex_store))"
    by (simp add: ex_store_def pool_line_def heater_line_def pump_line_def blank_line_def)
  have hp: "has_pool_install_of (order_lines ex_store ex_order)"
    by (simp add: ex_lines ex_has_pool)
  have mem: "heater_line_priced \<in> set (order_lines ex_store_priced ex_order_priced)"
    by (simp add: ex_lines_priced)
  have sg: "line_shipping_group heater_line_priced = Some parcel"
    by (simp add: line_shipping_group_def heater_line_priced_def heater_line_def blank_line_def
          ex_heater_def)
  have fr: "free_with_install parcel" by (simp add: parcel_def)
  from C3_cross_line_free_shipping [OF d ex_apply_pricing hp mem sg fr]
  show ?thesis
    by (simp add: d ex_apply_pricing hp mem sg fr)
       (simp add: heater_line_priced_def heater_line_def blank_line_def)
qed

text \<open>
  C4.  The claim is that two calls with the same distance argument give the same amounts.
  With no distance argument the first call can change what the second one measures: the
  order here is linked to a ZIP record without coordinates and without a service area,
  and its \<open>zip_code\<close> names another ZIP record.  The first call prices at distance 0
  and links the order to the record of its \<open>zip_code\<close>; the second call measures the
  distance to that record (3958.8 * pi miles from the base) and charges more shipping.
\<close>

theorem C4_counterexample:
  "apply_pricing c4_store c4_order None = Inr (c4_store1, c4_order1)
   \<and> apply_pricing c4_store1 c4_order1 None = Inr (c4_store2, c4_order2)
   \<and> map line_shipping_amount (order_items c4_store1) = [20]
   \<and> map line_shipping_amount (order_items c4_store2) = [20 + 39588 / 10 * pi]
   \<and> shipping_total c4_order1 = 20
   \<and> shipping_total c4_order2 = 20 + 39588 / 10 * pi
   \<and> grand_total c4_order1 = 120
   \<and> grand_total c4_order2 = 120 + 39588 / 10 * pi
   \<and> shipping_total c4_order2 \<noteq> shipping_total c4_order1
   \<and> apply_pricing c4_store1 c4_order1 None \<noteq> Inr (c4_store1, c4_order1)"
proof -
  have a1: "apply_pricing c4_store c4_order None = Inr (c4_store1, c4_order1)"
    by (simp add: apply_pricing_def c4_first_distance c4_first_priced)
  have a2: "apply_pricing c4_store1 c4_order1 None = Inr (c4_store2, c4_order2)"
    by (simp add: apply_pricing_def c4_second_distance c4_second_priced)
  have ne: "shipping_total c4_order2 \<noteq> shipping_total c4_order1"
    by (simp add: c4_order2_def c4_order1_def c4_distance_def)
  then have "c4_order2 \<noteq> c4_order1" by auto
  then show ?thesis
    using a1 a2 ne
    by (simp add: c4_order1_def c4_order2_def c4_store1_def c4_store2_def c4_distance_def)
qed

text \<open>
  C4, as the code has it.  A second call of \<open>apply_pricing\<close> with the same argument
  leaves the order and the stored rows exactly as the first call left them, when the
  distance is given, or when it is not given and the order had no linked ZIP record or
  the first call left its linked ZIP record as it was.  Order lines have unique primary
  keys.
\<close>

theorem C4_apply_pricing_idempotent:
  assumes d: "distinct (map oi_id (order_items st))"
    and ap: "apply_pricing st self distance_arg = Inr (st1, self1)"
    and cond: "distance_arg \<noteq> None \<or> zip_location self = None
               \<or> zip_location self1 = zip_location self"
  shows "apply_pricing st1 self1 distance_arg = Inr (st1, self1)"
proof -
  from ap obtain sta dm where rd: "resolve_distance st self distance_arg = Inr (sta, dm)"
    and po: "price_order sta self dm = (st1, self1)"
    by (auto simp: apply_pricing_Inr)
  note f = resolve_distance_fields [OF rd]
  have da: "distinct (map oi_id (order_items sta))" using d f(3) by simp
  have idem: "price_order st1 self1 dm = (st1, self1)"
    by (rule price_order_idem [OF da po])
  have "resolve_distance st1 self1 distance_arg = Inr (st1, dm)"
  proof (cases distance_arg)
    case (Some v)
    with rd show ?thesis by simp
  next
    case None
    with rd obtain x where cd: "calculate_distance st self None = Inr (sta, x)"
      and dm: "dm = (case x of Some v \<Rightarrow> v | None \<Rightarrow> 0)"
      by (auto simp: resolve_distance_def split: sum.splits option.splits)
    have sta: "sta = fst (get_solo st)" using cd by (rule calculate_distance_store)
    have st1: "st1 = fst (price_order sta self dm)" and self1: "self1 = snd (price_order sta self dm)"
      using po by simp_all
    have set: "settings_row st1 = Some (snd (get_solo st))"
      unfolding st1 price_order_settings sta
      by (simp add: get_solo_settings get_solo_twice)
    have z: "zip_locations st1 = zip_locations st" by (simp add: st1 f(1))
    have stored: "(case zip_location self1 of
            Some zl \<Rightarrow> Some zl
          | None \<Rightarrow> if zip_code self1 \<noteq> [] then zip_first st (zip_code self1) else None)
         = (case zip_location self of
              Some zl \<Rightarrow> Some zl
            | None \<Rightarrow> if zip_code self \<noteq> [] then zip_first st (zip_code self) else None)"
    proof (rule stored_location_after)
      show "zip_location self = None \<or> zip_location self1 = zip_location self"
        using cond None by simp
      show "zip_location self1 = zip_location (fst (snd (resolve_service_area sta self)))"
        by (simp add: self1 price_order_keeps)
      show "zip_code self1 = zip_code self" by (simp add: self1 price_order_keeps)
      show "zip_locations sta = zip_locations st" by (rule f(1))
    qed
    have "calculate_distance st1 self1 None = Inr (st1, x)"
      by (rule calculate_distance_again [OF set z stored cd])
    then show ?thesis
      by (simp add: None resolve_distance_def dm split: option.splits)
  qed
  then show ?thesis
    by (simp add: apply_pricing_def idem)
qed

theorem C4_apply_pricing_idempotent_witness:
  "distinct (map oi_id (order_items ex_store))
   \<and> apply_pricing ex_store ex_order (Some 80) = Inr (ex_store_priced, ex_order_priced)
   \<and> apply_pricing ex_store_priced ex_order_priced (Some 80)
       = Inr (ex_store_priced, ex_order_priced)
   \<and> apply_pricing ex_store ex_order None = Inr (price_order ex_store ex_order 0)
   \<and> zip_location (snd (price_order ex_store ex_order 0)) = zip_location ex_order
   \<and> apply_pricing (fst (price_order ex_store ex_order 0))
         (snd (price_order ex_store ex_order 0)) None
       = Inr (price_order ex_store ex_order 0)"
proof -
  have d: "distinct (map oi_id (order_items ex_store))"
    by (simp add: ex_store_def pool_line_def heater_line_def pump_line_def blank_line_def)
  have rd: "resolve_distance ex_store ex_order None = Inr (ex_store, 0)"
    by (simp add: resolve_distance_def calculate_distance_def get_solo_def zip_first_def Let_def
          ex_store_def ex_order_def ex_settings_def ex_zip_def)
  have ap0: "apply_pricing ex_store ex_order None
             = Inr (fst (price_order ex_store ex_order 0), snd (price_order ex_store ex_order 0))"
    by (simp add: apply_pricing_def rd)
  have zl: "zip_location (snd (price_order ex_store ex_order 0)) = zip_location ex_order"
    by (simp add: price_order_keeps ex_resolve)
  from C4_apply_pricing_idempotent [OF d ex_apply_pricing]
       C4_apply_pricing_idempotent [OF d ap0]
  show ?thesis
    by (simp add: d ex_apply_pricing ap0 zl)
qed

text \<open>
  C5.  For an install-eligible store item the install estimate at distance \<open>d\<close> is
  \<open>install_base_rate + max 0 (d - install_included_miles) * install_per_mile_rate\<close>;
  at any distance at or below the included miles it is the base rate exactly; for an
  item that is not install-eligible it is 0.
\<close>

theorem C5_item_install_estimate:
  "(is_installable it \<longrightarrow>
      si_estimate_install_cost it d
        = install_base_rate it
          + max 0 (d - real (install_included_miles it)) * install_per_mile_rate it)
   \<and> (is_installable it \<longrightarrow> d \<le> real (install_included_miles it) \<longrightarrow>
      si_estimate_install_cost it d = install_base_rate it)
   \<and> (\<not> is_installable it \<longrightarrow> si_estimate_install_cost it d = 0)"
  by (auto simp: si_estimate_install_cost_def Let_def max_def)

theorem C5_item_install_estimate_witness:
  "is_installable scenario_item
   \<and> si_estimate_install_cost scenario_item 80 = 195
   \<and> (30::real) \<le> real (install_included_miles scenario_item)
   \<and> si_estimate_install_cost scenario_item 30 = 150
   \<and> \<not> is_installable (scenario_item\<lparr>is_installable := False\<rparr>)
   \<and> si_estimate_install_cost (scenario_item\<lparr>is_installable := False\<rparr>) 80 = 0"
  using C5_item_install_estimate [of scenario_item 80]
        C5_item_install_estimate [of scenario_item 30]
        C5_item_install_estimate [of "scenario_item\<lparr>is_installable := False\<rparr>" 80]
  by (simp add: scenario_item_def)







text \<open>
  C8.  \<open>calculate_distance\<close> tests the latitudes only.  For a customer ZIP record
  with a latitude and no longitude it calls \<open>haversine_miles\<close> with \<open>None\<close>, which
  raises TypeError instead of returning \<open>None\<close>; \<open>apply_pricing\<close> without a distance
  argument raises with it.
\<close>

theorem C8_longitude_missing_raises:
  "latitude c8_base = Some 29 \<and> longitude c8_base = Some (- 82)
   \<and> latitude c8_customer = Some (593 / 20) \<and> longitude c8_customer = None
   \<and> zip_location c8_order = Some c8_customer
   \<and> calculate_distance c8_store c8_order None = Inl TypeError
   \<and> apply_pricing c8_store c8_order None = Inl TypeError"
  by (simp add: apply_pricing_def resolve_distance_def calculate_distance_def haversine_miles_def
        get_solo_def zip_first_def Let_def c8_store_def c8_order_def c8_base_def c8_customer_def
        ex_store_def ex_settings_def)



text \<open>
  C10.  The permit fee follows the \<open>install_selected\<close> flag alone.  In an order with a
  resolved service area whose install-selected lines all reference a store item with
  \<open>is_installable\<close> false (and there is such a line), every install-selected line gets
  install amount 0, and \<open>permit_total\<close> is the full accessory permit charge.
\<close>

theorem C10_permit_from_install_flag:
  assumes "distinct (map oi_id (order_items st))"
    and "apply_pricing st self distance_arg = Inr (st', self')"
    and "order_service_area st self = Some sa"
    and "\<exists>r\<in>set (order_lines st self). install_selected r"
    and "\<forall>r\<in>set (order_lines st self). install_selected r \<longrightarrow>
           pool_variant r = None \<and> (\<exists>it. store_item r = Some it \<and> \<not> is_installable it)"
  shows "permit_total self'
           = permit_accessory_fee_base sa + permit_accessory_labor_hours sa * hourly_rate st
         \<and> (\<forall>r'\<in>set (order_lines st' self'). install_selected r' \<longrightarrow> line_install_amount r' = 0)"
proof
  from assms(2) obtain st1 d1 where rd: "resolve_distance st self distance_arg = Inr (st1, d1)"
    and po: "price_order st1 self d1 = (st', self')"
    by (auto simp: apply_pricing_Inr)
  note f = resolve_distance_fields [OF rd]
  have ol: "order_lines st1 self = order_lines st self"
    by (simp add: order_lines_def f(3))
  have sa1: "order_service_area st1 self = Some sa"
    using order_service_area_cong [OF f(1), of self] assms(3) by simp
  have nopool: "\<not> has_pool_install_of (order_lines st self)"
    using assms(5) by (auto simp: has_pool_install_of_def list_ex_iff)
  have acc: "has_accessory_install_of (order_lines st self)"
  proof -
    from assms(4) obtain r where r: "r \<in> set (order_lines st self)" "install_selected r"
      by blast
    with assms(5) have "store_item r \<noteq> None" by fastforce
    with r show ?thesis
      unfolding has_accessory_install_of_def list_ex_iff by blast
  qed
  have "permit_total self' = permit_total (snd (price_order st1 self d1))" using po by simp
  also have "\<dots> = permit_accessory_fee_base sa + permit_accessory_labor_hours sa * hourly_rate st1"
    by (simp add: price_order_permit sa1 ol nopool acc)
  finally show "permit_total self'
           = permit_accessory_fee_base sa + permit_accessory_labor_hours sa * hourly_rate st"
    by (simp add: f(4))
  show "\<forall>r'\<in>set (order_lines st' self'). install_selected r' \<longrightarrow> line_install_amount r' = 0"
  proof (intro ballI impI)
    fix r' assume r': "r' \<in> set (order_lines st' self')" and sel: "install_selected r'"
    from apply_pricing_priced_lines [OF assms(1,2)] obtain dm where
      "order_lines st' self'
       = map (price_item (has_pool_install_of (order_lines st self)) dm) (order_lines st self)" ..
    with r' obtain r where r: "r' = price_item (has_pool_install_of (order_lines st self)) dm r"
      and rin: "r \<in> set (order_lines st self)"
      by auto
    from sel have "install_selected r" by (simp add: r)
    with assms(5) rin obtain it where "pool_variant r = None" "store_item r = Some it"
      "\<not> is_installable it" by blast
    from price_item_not_installable [OF this] show "line_install_amount r' = 0"
      by (simp add: r)
  qed
qed

theorem C10_permit_from_install_flag_witness:
  "distinct (map oi_id (order_items c10_store))
   \<and> apply_pricing c10_store ex_order (Some 80) = Inr (price_order c10_store ex_order 80)
   \<and> order_service_area c10_store ex_order = Some ex_area
   \<and> order_lines c10_store ex_order = [heater_install_line]
   \<and> install_selected heater_install_line
   \<and> pool_variant heater_install_line = None
   \<and> store_item heater_install_line = Some ex_heater
   \<and> \<not> is_installable ex_heater
   \<and> permit_total (snd (price_order c10_store ex_order 80)) = 25 + 1 * 25
   \<and> map line_install_amount
         (order_lines (fst (price_order c10_store ex_order 80))
            (snd (price_order c10_store ex_order 80))) = [0]"
proof -
  have lines: "order_lines c10_store ex_order = [heater_install_line]"
    by (simp add: order_lines_def c10_store_def heater_install_line_def data_defs)
  have d: "distinct (map oi_id (order_items c10_store))"
    by (simp add: c10_store_def)
  have sa: "order_service_area c10_store ex_order = Some ex_area"
    by (simp add: order_service_area_def resolve_service_area_def linked_service_area_def
          ex_order_def ex_zip_def)
  have hl: "install_selected heater_install_line" "pool_variant heater_install_line = None"
    "store_item heater_install_line = Some ex_heater" "\<not> is_installable ex_heater"
    by (simp_all add: heater_install_line_def heater_line_def blank_line_def ex_heater_def)
  have ap: "apply_pricing c10_store ex_order (Some 80) = Inr (price_order c10_store ex_order 80)"
    by (rule apply_pricing_Some)
  have priced: "order_lines (fst (price_order c10_store ex_order 80))
            (snd (price_order c10_store ex_order 80))
        = [price_item False 80 heater_install_line]"
    by (simp add: price_order_priced_lines [OF d] lines has_pool_install_of_def hl)
  have ap': "apply_pricing c10_store ex_order (Some 80)
             = Inr (fst (price_order c10_store ex_order 80), snd (price_order c10_store ex_order 80))"
    by (simp add: ap)
  from C10_permit_from_install_flag [OF d ap' sa]
  have "permit_total (snd (price_order c10_store ex_order 80))
          = permit_accessory_fee_base ex_area
            + permit_accessory_labor_hours ex_area * hourly_rate c10_store
        \<and> line_install_amount (price_item False 80 heater_install_line) = 0"
    by (simp add: lines hl priced)
  moreover have "hourly_rate c10_store = 25"
    by (simp add: hourly_rate_eq c10_store_def ex_store_def ex_settings_def)
  ultimately show ?thesis
    by (simp add: d ap sa lines hl priced ex_area_def)
qed

end
